theory Spec2Isabelle
  imports Main "HOL-Library.Word"
begin

section \<open>Python values and string primitives\<close>

text \<open>
  The provider of \<^verbatim>\<open>py/providers/openai_codex.py\<close> works on loosely typed Python data:
  option mappings loaded from the editor, JSON documents decoded from the wire, and plain
  strings. Values are embedded as the datatype below. A Python \<^verbatim>\<open>str\<close> is a
  \<^typ>\<open>string\<close>, each \<^typ>\<open>char\<close> standing for one code point below 256; a Python
  \<^verbatim>\<open>float\<close> is its IEEE-754 binary64 bit pattern; a \<^verbatim>\<open>dict\<close> with string keys
  is an association list read with \<^const>\<open>map_of\<close>.
\<close>

datatype pyval =
    PNone
  | PBool bool
  | PInt int
  | PFloat "64 word"
  | PStr string
  | PList "pyval list"
  | PDict "(string \<times> pyval) list"

text \<open>A float is zero when all bits but the sign bit are clear (\<^verbatim>\<open>0.0\<close> and \<^verbatim>\<open>-0.0\<close>).\<close>

definition float_is_zero :: "64 word \<Rightarrow> bool" where
  "float_is_zero w = (take_bit 63 w = 0)"

text \<open>Python truth value testing, as used by \<^verbatim>\<open>if x\<close>, \<^verbatim>\<open>not x\<close> and \<^verbatim>\<open>x or y\<close>.\<close>

fun truthy :: "pyval \<Rightarrow> bool" where
  "truthy PNone = False"
| "truthy (PBool b) = b"
| "truthy (PInt n) = (n \<noteq> 0)"
| "truthy (PFloat w) = (\<not> float_is_zero w)"
| "truthy (PStr s) = (s \<noteq> [])"
| "truthy (PList xs) = (xs \<noteq> [])"
| "truthy (PDict d) = (d \<noteq> [])"

text \<open>The comparison \<^verbatim>\<open>value == 0\<close>: numbers and booleans compare by numeric value.\<close>

fun py_eq_zero :: "pyval \<Rightarrow> bool" where
  "py_eq_zero (PInt n) = (n = 0)"
| "py_eq_zero (PBool b) = (\<not> b)"
| "py_eq_zero (PFloat w) = float_is_zero w"
| "py_eq_zero _ = False"

text \<open>The membership test \<^verbatim>\<open>value in ("", None)\<close>.\<close>

fun in_empty_or_none :: "pyval \<Rightarrow> bool" where
  "in_empty_or_none PNone = True"
| "in_empty_or_none (PStr s) = (s = [])"
| "in_empty_or_none _ = False"

text \<open>
  The characters \<^verbatim>\<open>str.strip()\<close> removes: those with \<^verbatim>\<open>str.isspace()\<close> true, which
  below code point 256 are U+0009..U+000D, U+001C..U+0020, U+0085 and U+00A0.
\<close>

definition py_isspace :: "char \<Rightarrow> bool" where
  "py_isspace c =
     (let n = (of_char c :: nat)
      in (9 \<le> n \<and> n \<le> 13) \<or> (28 \<le> n \<and> n \<le> 32) \<or> n = 133 \<or> n = 160)"

definition py_strip :: "string \<Rightarrow> string" where
  "py_strip s = rev (dropWhile py_isspace (rev (dropWhile py_isspace s)))"

definition startswith :: "string \<Rightarrow> string \<Rightarrow> bool" where
  "startswith s p = (take (length p) s = p)"

text \<open>\<^verbatim>\<open>sep.join(xs)\<close>.\<close>

fun py_join :: "string \<Rightarrow> string list \<Rightarrow> string" where
  "py_join sep [] = []"
| "py_join sep [x] = x"
| "py_join sep (x # y # ys) = x @ sep @ py_join sep (y # ys)"

text \<open>
  \<^verbatim>\<open>s.split(c)\<close> for a one-character separator: the result is never empty, and
  \<^verbatim>\<open>"".split(",")\<close> is \<^verbatim>\<open>[""]\<close>.
\<close>

fun py_split :: "char \<Rightarrow> string \<Rightarrow> string list" where
  "py_split c [] = [[]]"
| "py_split c (x # xs) =
     (if x = c then [] # py_split c xs
      else (case py_split c xs of
              [] \<Rightarrow> [[x]]
            | w # ws \<Rightarrow> (x # w) # ws))"

section \<open>Errors and generators\<close>

text \<open>
  Every exception the provider can raise is a value. \<^verbatim>\<open>utils.make_known_error(message)\<close>
  builds the error the editor shows to the user; the specification's CapabilityError and
  ConfigurationError are both such known errors, told apart by their message.
\<close>

datatype error =
    KnownError string
  | KeyError string
  | IndexError
  | AttributeError
  | TypeError
  | JSONDecodeError string
  | TransportError string

text \<open>
  A generator that has been run to its end: the elements it yielded, in order, closed
  either by normal exhaustion or by the exception that ended it.
\<close>

datatype 'a gen = Stop | Raise error | Yield 'a "'a gen"

fun yielded :: "'a gen \<Rightarrow> 'a list" where
  "yielded Stop = []"
| "yielded (Raise e) = []"
| "yielded (Yield x g) = x # yielded g"

fun raised :: "'a gen \<Rightarrow> error option" where
  "raised Stop = None"
| "raised (Raise e) = Some e"
| "raised (Yield x g) = raised g"


section \<open>Prompt compiler\<close>

text \<open>
  A message is a mapping with an optional \<^verbatim>\<open>role\<close> and an optional \<^verbatim>\<open>content\<close> list;
  a content part has an optional \<^verbatim>\<open>type\<close> and an optional \<^verbatim>\<open>text\<close>. An absent key
  is \<^const>\<open>None\<close>, as \<^verbatim>\<open>dict.get\<close> sees it.
\<close>

record content_part =
  part_type :: "string option"
  part_text :: "string option"

record message =
  msg_role :: "string option"
  msg_content :: "content_part list option"

definition role_labels :: "(string \<times> string) list" where
  "role_labels =
     [(''system'', ''System''), (''user'', ''User''),
      (''assistant'', ''Assistant''), (''tool'', ''Tool'')]"

text \<open>\<^verbatim>\<open>role_labels.get(message.get("role", "user"), "User")\<close>.\<close>

definition role_label :: "message \<Rightarrow> string" where
  "role_label m =
     (case map_of role_labels (case msg_role m of None \<Rightarrow> ''user'' | Some r \<Rightarrow> r) of
        None \<Rightarrow> ''User''
      | Some l \<Rightarrow> l)"

text \<open>
  \<^verbatim>\<open>[c.get("text", "") for c in message.get("content", []) if c.get("type") == "text"]\<close>.
\<close>

definition text_chunks :: "message \<Rightarrow> string list" where
  "text_chunks m =
     map (\<lambda>c. case part_text c of None \<Rightarrow> [] | Some t \<Rightarrow> t)
       (filter (\<lambda>c. part_type c = Some ''text'')
          (case msg_content m of None \<Rightarrow> [] | Some cs \<Rightarrow> cs))"

text \<open>\<^verbatim>\<open>"\n".join(filter(None, text_chunks)).strip()\<close>.\<close>

definition message_text :: "message \<Rightarrow> string" where
  "message_text m =
     py_strip (py_join ''\<newline>'' (filter (\<lambda>t. t \<noteq> []) (text_chunks m)))"

text \<open>The \<^verbatim>\<open>for message in messages\<close> loop, with \<^verbatim>\<open>prompt_parts\<close> as accumulator.\<close>

fun compile_loop :: "message list \<Rightarrow> string list \<Rightarrow> string list" where
  "compile_loop [] parts = parts"
| "compile_loop (m # ms) parts =
     (let text = message_text m
      in if text = [] then compile_loop ms parts
         else compile_loop ms (parts @ [role_label m @ ''::\<newline>'' @ text]))"

text \<open>\<^verbatim>\<open>prompt_parts\<close> as it stands just before the final join.\<close>

definition prompt_parts :: "message list \<Rightarrow> string list" where
  "prompt_parts messages =
     (let parts = compile_loop messages []
      in if parts = [] \<or> \<not> startswith (last parts) ''Assistant::''
         then parts @ [''Assistant::'']
         else parts)"

definition messages_to_prompt :: "message list \<Rightarrow> string" where
  "messages_to_prompt messages = py_join ''\<newline>\<newline>'' (prompt_parts messages)"

section \<open>Option normalizer\<close>

text \<open>
  Options and request payloads are Python dicts with string keys, embedded as maps.
  The converters \<^verbatim>\<open>int\<close>, \<^verbatim>\<open>float\<close> and \<^verbatim>\<open>json.loads\<close> belong to the Python
  runtime, not to this repository: they are parameters of the model. Each returns the
  converted value, or the text of the \<^verbatim>\<open>ValueError\<close>, \<^verbatim>\<open>TypeError\<close> or
  \<^verbatim>\<open>JSONDecodeError\<close> it raises.
\<close>

type_synonym options = "string \<rightharpoonup> pyval"

record stdlib =
  py_int :: "string \<Rightarrow> string + int"
  py_float :: "string \<Rightarrow> string + 64 word"
  json_loads :: "string \<Rightarrow> string + pyval"

text \<open>The converter passed to \<^verbatim>\<open>_convert_option\<close>.\<close>

datatype converter =
    ToFloat            \<comment> \<open>\<^verbatim>\<open>float\<close>\<close>
  | ToInt              \<comment> \<open>\<^verbatim>\<open>int\<close>\<close>
  | ToBool             \<comment> \<open>\<^verbatim>\<open>lambda x: bool(int(x))\<close>\<close>
  | ToStr              \<comment> \<open>\<^verbatim>\<open>str\<close>\<close>
  | ToJson             \<comment> \<open>\<^verbatim>\<open>json.loads\<close>\<close>

fun convert :: "stdlib \<Rightarrow> converter \<Rightarrow> string \<Rightarrow> string + pyval" where
  "convert lib ToFloat s = (case py_float lib s of Inl e \<Rightarrow> Inl e | Inr w \<Rightarrow> Inr (PFloat w))"
| "convert lib ToInt s = (case py_int lib s of Inl e \<Rightarrow> Inl e | Inr n \<Rightarrow> Inr (PInt n))"
| "convert lib ToBool s = (case py_int lib s of Inl e \<Rightarrow> Inl e | Inr n \<Rightarrow> Inr (PBool (n \<noteq> 0)))"
| "convert lib ToStr s = Inr (PStr s)"
| "convert lib ToJson s = json_loads lib s"

text \<open>
  \<^verbatim>\<open>f"Invalid value for option '{name}': {options[name]}. Error: {error}"\<close>, where
  \<^verbatim>\<open>options[name]\<close> is still the raw string, the assignment not having happened.
\<close>

definition invalid_option_message :: "string \<Rightarrow> string \<Rightarrow> string \<Rightarrow> string" where
  "invalid_option_message name raw err =
     ''Invalid value for option '' @ [CHR 0x27] @ name @ [CHR 0x27] @ '': '' @ raw
       @ ''. Error: '' @ err"

definition convert_option :: "stdlib \<Rightarrow> string \<Rightarrow> converter \<Rightarrow> options \<Rightarrow> error + options" where
  "convert_option lib name cv opts =
     (case opts name of
        Some (PStr s) \<Rightarrow>
          if s \<noteq> [] then
            (case convert lib cv s of
               Inl err \<Rightarrow> Inl (KnownError (invalid_option_message name s err))
             | Inr v \<Rightarrow> Inr (opts(name \<mapsto> v)))
          else Inr opts
      | _ \<Rightarrow> Inr opts)"

text \<open>The thirteen \<^verbatim>\<open>_convert_option\<close> calls, in the order the source makes them.\<close>

definition conversions :: "(string \<times> converter) list" where
  "conversions =
     [(''request_timeout'', ToFloat),
      (''temperature'', ToFloat),
      (''max_tokens'', ToInt),
      (''top_p'', ToFloat),
      (''presence_penalty'', ToFloat),
      (''frequency_penalty'', ToFloat),
      (''best_of'', ToInt),
      (''n'', ToInt),
      (''stream'', ToBool),
      (''logprobs'', ToInt),
      (''suffix'', ToStr),
      (''stop'', ToJson),
      (''logit_bias'', ToJson)]"

fun convert_all :: "stdlib \<Rightarrow> (string \<times> converter) list \<Rightarrow> options \<Rightarrow> error + options" where
  "convert_all lib [] opts = Inr opts"
| "convert_all lib ((name, cv) # rest) opts =
     (case convert_option lib name cv opts of
        Inl e \<Rightarrow> Inl e
      | Inr opts' \<Rightarrow> convert_all lib rest opts')"

definition parse_raw_options :: "stdlib \<Rightarrow> options \<Rightarrow> error + options" where
  "parse_raw_options lib raw_options = convert_all lib conversions raw_options"

section \<open>Request builder\<close>

definition option_keys :: "string list" where
  "option_keys =
     [''suffix'', ''max_tokens'', ''temperature'', ''top_p'', ''n'', ''stream'',
      ''logprobs'', ''stop'', ''presence_penalty'', ''frequency_penalty'', ''best_of'',
      ''logit_bias'']"

definition count_like :: "string set" where
  "count_like = {''max_tokens'', ''logprobs'', ''best_of'', ''n''}"

text \<open>The \<^verbatim>\<open>for key in option_keys\<close> loop, with \<^verbatim>\<open>result\<close> as accumulator.\<close>

fun collect_options :: "string list \<Rightarrow> options \<Rightarrow> options \<Rightarrow> options" where
  "collect_options [] opts result = result"
| "collect_options (key # keys) opts result =
     (case opts key of
        None \<Rightarrow> collect_options keys opts result
      | Some v \<Rightarrow>
          if in_empty_or_none v then collect_options keys opts result
          else if key \<in> count_like \<and> py_eq_zero v then collect_options keys opts result
          else collect_options keys opts (result(key \<mapsto> v)))"

definition make_codex_options :: "options \<Rightarrow> error + options" where
  "make_codex_options opts =
     (case opts ''model'' of
        None \<Rightarrow> Inl (KeyError ''model'')
      | Some m \<Rightarrow> Inr (collect_options option_keys opts [''model'' \<mapsto> m]))"

section \<open>Transport and decoder\<close>

text \<open>
  The collaborators outside this repository: the credential capability
  \<^verbatim>\<open>utils.load_api_key(env_variable, token_file_path, token_load_fn)\<close>, the HTTP transport
  \<^verbatim>\<open>urllib.request.urlopen\<close>, which answers a request with the text lines of the response
  body or fails, and the editor's \<^verbatim>\<open>vim.eval\<close>, which returns the default options stored
  under a variable name. \<^verbatim>\<open>utils.print_debug\<close> has no effect the provider observes.
\<close>

record http_request =
  req_url :: pyval
  req_data :: options
  req_headers :: "string \<rightharpoonup> string"
  req_timeout :: pyval
  req_method :: string

record host =
  utils_load_api_key :: "string \<Rightarrow> pyval \<Rightarrow> pyval \<Rightarrow> error + string"
  urlopen :: "http_request \<Rightarrow> error + string list"
  vim_eval :: "string \<Rightarrow> options"

text \<open>The observable effect of the provider: the HTTP calls made so far, oldest first.\<close>

type_synonym world = "http_request list"

record provider =
  command_type :: string
  prov_options :: options

text \<open>\<^verbatim>\<open>d.get(key, default)\<close> on a dict of options.\<close>

definition get_or :: "options \<Rightarrow> string \<Rightarrow> pyval \<Rightarrow> pyval" where
  "get_or d key dflt = (case d key of None \<Rightarrow> dflt | Some v \<Rightarrow> v)"

text \<open>\<^verbatim>\<open>d[key]\<close> on a dict of options.\<close>

definition getitem :: "options \<Rightarrow> string \<Rightarrow> error + pyval" where
  "getitem d key = (case d key of None \<Rightarrow> Inl (KeyError key) | Some v \<Rightarrow> Inr v)"

definition load_api_key :: "host \<Rightarrow> provider \<Rightarrow> error + (string \<times> string option)" where
  "load_api_key h self =
     (case utils_load_api_key h ''OPENAI_API_KEY''
             (get_or (prov_options self) ''token_file_path'' (PStr []))
             (get_or (prov_options self) ''token_load_fn'' (PStr [])) of
        Inl e \<Rightarrow> Inl e
      | Inr raw_api_key \<Rightarrow>
          (case py_split (CHR '','') (py_strip raw_api_key) of
             [] \<Rightarrow> Inl IndexError
           | e0 # rest \<Rightarrow>
               Inr (py_strip e0, (case rest of [] \<Rightarrow> None | e1 # _ \<Rightarrow> Some (py_strip e1)))))"

text \<open>The header dict of \<^verbatim>\<open>_openai_request\<close>, up to the end of the \<^verbatim>\<open>auth_type\<close> branch.\<close>

definition request_headers :: "host \<Rightarrow> provider \<Rightarrow> options \<Rightarrow> error + (string \<rightharpoonup> string)" where
  "request_headers h self opts =
     (let headers = [''Content-Type'' \<mapsto> ''application/json'', ''User-Agent'' \<mapsto> ''VimAI'']
      in case getitem opts ''auth_type'' of
           Inl e \<Rightarrow> Inl e
         | Inr auth_type \<Rightarrow>
             if auth_type = PStr ''bearer'' then
               (case load_api_key h self of
                  Inl e \<Rightarrow> Inl e
                | Inr (api_key, org_id) \<Rightarrow>
                    (let headers = headers(''Authorization'' \<mapsto> ''Bearer '' @ api_key)
                     in case org_id of
                          None \<Rightarrow> Inr headers
                        | Some org \<Rightarrow>
                            if org \<noteq> [] then Inr (headers(''OpenAI-Organization'' \<mapsto> org))
                            else Inr headers))
             else if auth_type = PStr ''api-key'' then
               (case load_api_key h self of
                  Inl e \<Rightarrow> Inl e
                | Inr (api_key, _) \<Rightarrow> Inr (headers(''api-key'' \<mapsto> api_key)))
             else Inr headers)"

text \<open>The \<^verbatim>\<open>for line_bytes in response\<close> loop of the streaming branch.\<close>

fun decode_lines :: "stdlib \<Rightarrow> string list \<Rightarrow> pyval gen" where
  "decode_lines lib [] = Stop"
| "decode_lines lib (line # rest) =
     (if \<not> startswith line ''data: '' then decode_lines lib rest
      else (let payload = py_strip (drop (length ''data: '') line)
            in if payload = ''[DONE]'' then decode_lines lib rest
               else (case json_loads lib payload of
                       Inl e \<Rightarrow> Raise (JSONDecodeError e)
                     | Inr v \<Rightarrow> Yield v (decode_lines lib rest))))"

text \<open>
  The body of the \<^verbatim>\<open>with urllib.request.urlopen(...) as response\<close> block:
  \<^verbatim>\<open>response.read()\<close> is the concatenation of the lines.
\<close>

definition decode_response :: "stdlib \<Rightarrow> options \<Rightarrow> string list \<Rightarrow> pyval gen" where
  "decode_response lib data lines =
     (if \<not> truthy (get_or data ''stream'' PNone) then
        (case json_loads lib (concat lines) of
           Inl e \<Rightarrow> Raise (JSONDecodeError e)
         | Inr v \<Rightarrow> Yield v Stop)
      else decode_lines lib lines)"


section \<open>Response mapper and provider operations\<close>

record chunk =
  chunk_type :: string
  chunk_content :: pyval

text \<open>\<^verbatim>\<open>x.get(key, default)\<close> on a decoded JSON value: only a dict has \<^verbatim>\<open>get\<close>.\<close>

fun dict_get :: "pyval \<Rightarrow> string \<Rightarrow> pyval \<Rightarrow> error + pyval" where
  "dict_get (PDict d) key dflt = Inr (case map_of d key of None \<Rightarrow> dflt | Some v \<Rightarrow> v)"
| "dict_get _ key dflt = Inl AttributeError"

text \<open>\<^verbatim>\<open>x[0]\<close> on a decoded JSON value.\<close>

fun subscript0 :: "pyval \<Rightarrow> error + pyval" where
  "subscript0 (PList []) = Inl IndexError"
| "subscript0 (PList (x # xs)) = Inr x"
| "subscript0 (PStr []) = Inl IndexError"
| "subscript0 (PStr (c # cs)) = Inr (PStr [c])"
| "subscript0 (PDict d) = Inl (KeyError ''0'')"
| "subscript0 _ = Inl TypeError"

definition map_chunk :: "pyval \<Rightarrow> error + chunk option" where
  "map_chunk resp =
     (case dict_get resp ''choices'' PNone of
        Inl e \<Rightarrow> Inl e
      | Inr c \<Rightarrow>
          (let choices = (if truthy c then c else PList [PDict []])
           in case subscript0 choices of
                Inl e \<Rightarrow> Inl e
              | Inr first \<Rightarrow>
                  (case dict_get first ''text'' (PStr []) of
                     Inl e \<Rightarrow> Inl e
                   | Inr text \<Rightarrow>
                       if truthy text
                       then Inr (Some \<lparr>chunk_type = ''assistant'', chunk_content = text\<rparr>)
                       else Inr None)))"

definition unsupported_command_message :: string where
  "unsupported_command_message = ''OpenAI Codex provider supports only :AI and :AIEdit commands''"

definition unsupported_image_message :: string where
  "unsupported_image_message = ''OpenAI Codex provider does not support image generation''"

definition ensure_supported_command :: "provider \<Rightarrow> error + unit" where
  "ensure_supported_command self =
     (if command_type self \<notin> {''complete'', ''edit''}
      then Inl (KnownError unsupported_command_message)
      else Inr ())"

text \<open>
  \<^verbatim>\<open>getattr(self, f"default_options_varname_{command_type}", "")\<close>: the class has this
  attribute for the two command types below and for no other.
\<close>

definition default_options_varname :: "string \<Rightarrow> string" where
  "default_options_varname ct =
     (if ct = ''complete'' then ''g:vim_ai_openai_codex_complete''
      else if ct = ''edit'' then ''g:vim_ai_openai_codex_edit''
      else [])"

text \<open>The constructor \<^verbatim>\<open>__init__\<close>.\<close>

definition init :: "stdlib \<Rightarrow> host \<Rightarrow> string \<Rightarrow> options \<Rightarrow> world \<Rightarrow> (error + provider) \<times> world" where
  "init lib h ct raw_options w =
     (let config_varname = default_options_varname ct;
          raw_default_options = (if config_varname \<noteq> [] then vim_eval h config_varname else Map.empty);
          merged_options = raw_default_options ++ raw_options
      in case parse_raw_options lib merged_options of
           Inl e \<Rightarrow> (Inl e, w)
         | Inr opts \<Rightarrow>
             (let self = \<lparr>command_type = ct, prov_options = opts\<rparr>
              in case ensure_supported_command self of
                   Inl e \<Rightarrow> (Inl e, w)
                 | Inr _ \<Rightarrow> (Inr self, w)))"


definition request_image :: "provider \<Rightarrow> string \<Rightarrow> world \<Rightarrow> (error + pyval list) \<times> world" where
  "request_image self prompt w = (Inl (KnownError unsupported_image_message), w)"

section \<open>Reference views and a concrete runtime\<close>

text \<open>
  The theorems below compare the loops of the source with closed descriptions of their
  results. These are the descriptions.
\<close>

text \<open>The messages that contribute a block: those whose trimmed text is not empty.\<close>

definition surviving :: "message list \<Rightarrow> message list" where
  "surviving messages = filter (\<lambda>m. message_text m \<noteq> []) messages"

text \<open>The block of one message: its label, two colons, a newline, its text.\<close>

definition block :: "message \<Rightarrow> string" where
  "block m = role_label m @ ''::'' @ ''\<newline>'' @ message_text m"

text \<open>
  The text of a message as the specification words it: all text-type parts joined by
  newlines and trimmed, empty parts included.
\<close>

definition spec_message_text :: "message \<Rightarrow> string" where
  "spec_message_text m = py_strip (py_join ''\<newline>'' (text_chunks m))"

definition spec_blocks :: "message list \<Rightarrow> string list" where
  "spec_blocks messages =
     map (\<lambda>m. role_label m @ ''::'' @ ''\<newline>'' @ spec_message_text m)
       (filter (\<lambda>m. spec_message_text m \<noteq> []) messages)"

text \<open>A text part and a message made of text parts, as the editor builds them.\<close>

definition text_part :: "string \<Rightarrow> content_part" where
  "text_part t = \<lparr>part_type = Some ''text'', part_text = Some t\<rparr>"

definition text_message :: "string \<Rightarrow> string list \<Rightarrow> message" where
  "text_message r ts = \<lparr>msg_role = Some r, msg_content = Some (map text_part ts)\<rparr>"

text \<open>
  The payloads of a streamed body: of every line with the prefix, what is left after
  removing the prefix and trimming, the end-of-stream sentinels dropped.
\<close>

definition data_payloads :: "string list \<Rightarrow> string list" where
  "data_payloads lines =
     filter (\<lambda>p. p \<noteq> ''[DONE]'')
       (map (\<lambda>l. py_strip (drop 6 l)) (filter (\<lambda>l. startswith l ''data: '') lines))"

text \<open>
  The coercion the normalizer attempts for a key, given the list of conversions it runs:
  none when the key is not in the list, is absent from the options, or holds anything but a
  non-empty string; otherwise the raw string together with what its converter returns.
\<close>

definition attempted_in ::
  "stdlib \<Rightarrow> (string \<times> converter) list \<Rightarrow> options \<Rightarrow> string \<Rightarrow> (string \<times> (string + pyval)) option" where
  "attempted_in lib cs raw k =
     (case map_of cs k of
        None \<Rightarrow> None
      | Some cv \<Rightarrow>
          (case raw k of
             Some (PStr s) \<Rightarrow> if s \<noteq> [] then Some (s, convert lib cv s) else None
           | _ \<Rightarrow> None))"


text \<open>Whether the request builder copies the value of a key into the payload.\<close>

definition included :: "string \<Rightarrow> pyval \<Rightarrow> bool" where
  "included k v = (v \<noteq> PStr [] \<and> v \<noteq> PNone \<and> (k \<in> count_like \<longrightarrow> \<not> py_eq_zero v))"

text \<open>The two headers every request carries.\<close>

definition base_headers :: "string \<rightharpoonup> string" where
  "base_headers = [''Content-Type'' \<mapsto> ''application/json'', ''User-Agent'' \<mapsto> ''VimAI'']"

text \<open>
  A concrete runtime, to run the model on explicit inputs. \<open>decimal_int\<close> reads a decimal
  literal as Python's \<^verbatim>\<open>int\<close> does: blanks around it are skipped, one sign may lead,
  and single underscores may separate digits. The error text quotes the input as
  \<^verbatim>\<open>repr\<close> does for text without quotes, backslashes or control characters.
\<close>

definition is_digit :: "char \<Rightarrow> bool" where
  "is_digit c = (48 \<le> (of_char c :: nat) \<and> (of_char c :: nat) \<le> 57)"

fun well_grouped :: "string \<Rightarrow> bool" where
  "well_grouped [] = False"
| "well_grouped [c] = is_digit c"
| "well_grouped (c # d # cs) =
     (is_digit c \<and> (if d = CHR ''_'' then well_grouped cs else well_grouped (d # cs)))"

fun digits_value :: "string \<Rightarrow> int \<Rightarrow> int" where
  "digits_value [] acc = acc"
| "digits_value (c # cs) acc =
     (if is_digit c then digits_value cs (10 * acc + (of_char c - 48)) else digits_value cs acc)"

definition int_blank :: "char \<Rightarrow> bool" where
  "int_blank c =
     (let n = (of_char c :: nat) in (9 \<le> n \<and> n \<le> 13) \<or> n = 32 \<or> n = 133 \<or> n = 160)"

definition decimal_int :: "string \<Rightarrow> string + int" where
  "decimal_int s =
     (let t = rev (dropWhile int_blank (rev (dropWhile int_blank s)));
          neg = (case t of [] \<Rightarrow> False | c # _ \<Rightarrow> c = CHR ''-'');
          body = (case t of [] \<Rightarrow> [] | c # r \<Rightarrow> if c = CHR ''-'' \<or> c = CHR ''+'' then r else t)
      in if well_grouped body
         then Inr (if neg then - digits_value body 0 else digits_value body 0)
         else Inl (''invalid literal for int() with base 10: '' @ [CHR 0x27] @ s @ [CHR 0x27]))"

text \<open>
  A converter known on finitely many inputs, standing for \<^verbatim>\<open>float\<close> and
  \<^verbatim>\<open>json.loads\<close> in the concrete runtime. It is only ever run on the inputs listed and
  on inputs that the real converter rejects with the error text given.
\<close>

definition known_values :: "(string \<times> 'a) list \<Rightarrow> string \<Rightarrow> string \<Rightarrow> string + 'a" where
  "known_values table err s = (case map_of table s of None \<Rightarrow> Inl err | Some v \<Rightarrow> Inr v)"

definition hi_event :: pyval where
  "hi_event = PDict [(''choices'', PList [PDict [(''text'', PStr ''Hi'')]])]"

definition empty_event :: pyval where
  "empty_event = PDict [(''choices'', PList [PDict [(''text'', PStr [])]])]"

definition hello_event :: pyval where
  "hello_event = PDict [(''choices'', PList [PDict [(''text'', PStr ''Hello there'')]])]"

definition sample_lib :: stdlib where
  "sample_lib =
     \<lparr>py_int = decimal_int,
      py_float = known_values [(''0'', 0), (''1'', 0x3FF0000000000000)]
                   ''could not convert string to float'',
      json_loads = known_values
                     [(''{\"choices\":[{\"text\":\"Hi\"}]}'', hi_event),
                      (''{\"choices\":[{\"text\":\"\"}]}'', empty_event),
                      (''{\"choices\":[{\"text\":\"Hello there\"}]}'', hello_event),
                      (''[]'', PList [])]
                     ''Expecting value: line 1 column 1 (char 0)''\<rparr>"

text \<open>A host whose credential is \<open>cred\<close> and whose transport answers with \<open>lines\<close>.\<close>

definition sample_host :: "string \<Rightarrow> string list \<Rightarrow> host" where
  "sample_host cred lines =
     \<lparr>utils_load_api_key = (\<lambda>env path fn. Inr cred),
      urlopen = (\<lambda>req. Inr lines),
      vim_eval = (\<lambda>name. Map.empty)\<rparr>"

definition sample_options :: options where
  "sample_options =
     [''model'' \<mapsto> PStr ''code-davinci-002'',
      ''endpoint_url'' \<mapsto> PStr ''https://api.openai.com/v1/completions'',
      ''auth_type'' \<mapsto> PStr ''bearer'',
      ''token_file_path'' \<mapsto> PStr [],
      ''token_load_fn'' \<mapsto> PStr [],
      ''max_tokens'' \<mapsto> PInt 256,
      ''logprobs'' \<mapsto> PInt 0,
      ''temperature'' \<mapsto> PInt 0,
      ''top_p'' \<mapsto> PStr []]"

section \<open>Request builder: which keys reach the payload\<close>

lemma in_empty_or_none_iff: "in_empty_or_none v \<longleftrightarrow> v = PStr [] \<or> v = PNone"
  by (cases v) auto

lemma collect_options_lookup:
  "collect_options ks opts result k =
     (if k \<in> set ks \<and> (\<exists>v. opts k = Some v \<and> included k v) then opts k else result k)"
proof (induction ks arbitrary: result)
  case Nil
  show ?case by simp
next
  case (Cons key keys)
  show ?case
  proof (cases "opts key")
    case None
    then show ?thesis using Cons.IH [of result] by auto
  next
    case (Some v)
    show ?thesis
    proof (cases "included key v")
      case True
      then have "collect_options (key # keys) opts result k
                   = collect_options keys opts (result(key \<mapsto> v)) k"
        using Some by (auto simp add: included_def in_empty_or_none_iff)
      also have "\<dots> = (if k \<in> set keys \<and> (\<exists>v. opts k = Some v \<and> included k v)
                        then opts k else (result(key \<mapsto> v)) k)"
        by (rule Cons.IH)
      finally show ?thesis using Some True by auto
    next
      case False
      then have "collect_options (key # keys) opts result k = collect_options keys opts result k"
        using Some by (auto simp add: included_def in_empty_or_none_iff)
      then show ?thesis using Cons.IH [of result] Some False by auto
    qed
  qed
qed




section \<open>Prompt compiler: blocks and the closing marker\<close>

lemma compile_loop_eq: "compile_loop ms parts = parts @ map block (surviving ms)"
  by (induction ms arbitrary: parts) (simp_all add: surviving_def block_def Let_def)

lemma role_label_cases:
  "role_label m \<in> {''System'', ''User'', ''Assistant'', ''Tool''}"
  by (auto simp add: role_label_def role_labels_def split: option.splits if_splits)

lemma block_startswith_assistant:
  "startswith (block m) ''Assistant::'' \<longleftrightarrow> role_label m = ''Assistant''"
  using role_label_cases [of m] by (auto simp add: startswith_def block_def)

lemma block_not_marker: "message_text m \<noteq> [] \<Longrightarrow> block m \<noteq> ''Assistant::''"
  using role_label_cases [of m] by (auto simp add: block_def)

lemma surviving_text: "m \<in> set (surviving ms) \<Longrightarrow> message_text m \<noteq> []"
  by (simp add: surviving_def)

lemma prompt_parts_eq:
  "prompt_parts msgs =
     map block (surviving msgs)
       @ (if surviving msgs = [] \<or> role_label (last (surviving msgs)) \<noteq> ''Assistant''
          then [''Assistant::''] else [])"
proof (cases "surviving msgs = []")
  case True
  then show ?thesis by (simp add: prompt_parts_def compile_loop_eq)
next
  case False
  then have "last (map block (surviving msgs)) = block (last (surviving msgs))"
    by (simp add: last_map)
  then show ?thesis
    using False by (simp add: prompt_parts_def compile_loop_eq block_startswith_assistant)
qed

lemmas eval_prompt =
  surviving_def block_def message_text_def text_chunks_def text_message_def text_part_def
  py_strip_def py_isspace_def role_label_def role_labels_def

text \<open>
  Claim C2. The list of blocks that is joined into the prompt consists of the blocks of the
  surviving messages (those with non-empty text), followed by one more block
  \<^verbatim>\<open>Assistant::\<close> with empty body exactly when no message survives or the label of the
  last surviving block is not \<^verbatim>\<open>Assistant\<close>. So the last block of the prompt is the
  bare marker if and only if that condition holds, and after a closing assistant turn
  nothing is appended.
\<close>

theorem prompt_parts_turn_completion:
  "prompt_parts msgs =
     map block (surviving msgs)
       @ (if surviving msgs = [] \<or> role_label (last (surviving msgs)) \<noteq> ''Assistant''
          then [''Assistant::''] else [])
   \<and> (last (prompt_parts msgs) = ''Assistant::''
        \<longleftrightarrow> surviving msgs = [] \<or> role_label (last (surviving msgs)) \<noteq> ''Assistant'')
   \<and> messages_to_prompt msgs = py_join ''\<newline>\<newline>'' (prompt_parts msgs)"
proof -
  have marker: "last (prompt_parts msgs) = ''Assistant::''
        \<longleftrightarrow> surviving msgs = [] \<or> role_label (last (surviving msgs)) \<noteq> ''Assistant''"
  proof (cases "surviving msgs = [] \<or> role_label (last (surviving msgs)) \<noteq> ''Assistant''")
    case True
    then show ?thesis by (simp add: prompt_parts_eq)
  next
    case False
    then have ne: "surviving msgs \<noteq> []" by simp
    then have "last (surviving msgs) \<in> set (surviving msgs)" by simp
    then have "block (last (surviving msgs)) \<noteq> ''Assistant::''"
      using surviving_text block_not_marker by blast
    moreover have "last (prompt_parts msgs) = block (last (surviving msgs))"
      using False ne by (simp add: prompt_parts_eq last_map)
    ultimately show ?thesis using False by simp
  qed
  show ?thesis using marker prompt_parts_eq [of msgs] by (simp add: messages_to_prompt_def)
qed

theorem prompt_parts_turn_completion_witness:
  "last (prompt_parts [text_message ''system'' [''You are a helpful assistant.''],
                       text_message ''user'' [''Say hi'']]) = ''Assistant::''
   \<and> prompt_parts [text_message ''user'' [''Say hi''], text_message ''assistant'' [''Hello'']]
       = [''User::\<newline>Say hi'', ''Assistant::\<newline>Hello'']
   \<and> prompt_parts [] = [''Assistant::'']"
proof -
  let ?a = "[text_message ''system'' [''You are a helpful assistant.''],
             text_message ''user'' [''Say hi'']]"
  let ?b = "[text_message ''user'' [''Say hi''], text_message ''assistant'' [''Hello'']]"
  have 1: "last (prompt_parts ?a) = ''Assistant::''"
    using prompt_parts_turn_completion [of ?a] by (simp add: eval_prompt)
  have 2: "prompt_parts ?b = [''User::\<newline>Say hi'', ''Assistant::\<newline>Hello'']"
    using prompt_parts_turn_completion [of ?b] by (simp add: eval_prompt)
  have 3: "prompt_parts [] = [''Assistant::'']"
    using prompt_parts_turn_completion [of "[]"] by (simp add: eval_prompt)
  show ?thesis using 1 2 3 by blast
qed

section \<open>Prompt compiler: the text of a message\<close>

lemma nonempty_text_chunks:
  "filter (\<lambda>t. t \<noteq> []) (map (\<lambda>c. case part_text c of None \<Rightarrow> [] | Some t \<Rightarrow> t)
          (filter (\<lambda>c. part_type c = Some ''text'') cs))
        = [t. c \<leftarrow> cs, part_type c = Some ''text'', Some t \<leftarrow> [part_text c], t \<noteq> []]"
  by (induction cs) (auto split: option.splits)

lemma message_text_comprehension:
  "message_text m =
     py_strip (py_join ''\<newline>''
       [t. c \<leftarrow> (case msg_content m of None \<Rightarrow> [] | Some cs \<Rightarrow> cs),
           part_type c = Some ''text'', Some t \<leftarrow> [part_text c], t \<noteq> []])"
  unfolding message_text_def text_chunks_def nonempty_text_chunks ..

text \<open>
  Claim C5, as amended. For every message the prompt compiler joins the texts of its
  text-type content parts that are not empty with newlines (a part whose text is absent or
  empty contributes nothing, not even a separator), trims the result, and skips the message
  if nothing is left. The role is mapped through the label table, any other or absent role
  giving \<^verbatim>\<open>User\<close>; the block is the label, two colons, a newline and the text; the
  blocks, and the closing marker when it is due, are joined by a blank line.
\<close>

theorem messages_to_prompt_blocks:
  "message_text m =
     py_strip (py_join ''\<newline>''
       [t. c \<leftarrow> (case msg_content m of None \<Rightarrow> [] | Some cs \<Rightarrow> cs),
           part_type c = Some ''text'', Some t \<leftarrow> [part_text c], t \<noteq> []])
   \<and> role_label m =
       (if msg_role m = Some ''system'' then ''System''
        else if msg_role m = Some ''assistant'' then ''Assistant''
        else if msg_role m = Some ''tool'' then ''Tool''
        else ''User'')
   \<and> compile_loop msgs [] =
       map (\<lambda>m. role_label m @ ''::\<newline>'' @ message_text m)
         (filter (\<lambda>m. message_text m \<noteq> []) msgs)
   \<and> messages_to_prompt msgs =
       py_join ''\<newline>\<newline>''
         (compile_loop msgs []
            @ (if compile_loop msgs [] = [] \<or> \<not> startswith (last (compile_loop msgs [])) ''Assistant::''
               then [''Assistant::''] else []))"
proof -
  have label: "role_label m =
       (if msg_role m = Some ''system'' then ''System''
        else if msg_role m = Some ''assistant'' then ''Assistant''
        else if msg_role m = Some ''tool'' then ''Tool''
        else ''User'')"
    by (auto simp add: role_label_def role_labels_def split: option.splits)
  have loop: "compile_loop msgs [] =
       map (\<lambda>m. role_label m @ ''::\<newline>'' @ message_text m)
         (filter (\<lambda>m. message_text m \<noteq> []) msgs)"
    by (simp add: compile_loop_eq surviving_def block_def)
  have join: "messages_to_prompt msgs =
       py_join ''\<newline>\<newline>''
         (compile_loop msgs []
            @ (if compile_loop msgs [] = [] \<or> \<not> startswith (last (compile_loop msgs [])) ''Assistant::''
               then [''Assistant::''] else []))"
    by (simp add: messages_to_prompt_def prompt_parts_def Let_def)
  show ?thesis using message_text_comprehension [of m] label loop join by blast
qed

theorem messages_to_prompt_blocks_witness:
  "compile_loop [text_message ''tool'' [''a'', [], ''b''], text_message ''user'' ['' '']] []
     = [''Tool::\<newline>a\<newline>b'']
   \<and> messages_to_prompt [text_message ''tool'' [''a'', [], ''b''], text_message ''user'' ['' '']]
     = ''Tool::\<newline>a\<newline>b\<newline>\<newline>Assistant::''"
  using messages_to_prompt_blocks
          [of "text_message ''tool'' [''a'', [], ''b'']"
              "[text_message ''tool'' [''a'', [], ''b''], text_message ''user'' ['' '']]"]
  by (simp add: eval_prompt startswith_def)

text \<open>
  The claim as worded joins all text-type parts, so an empty part between two others would
  leave an empty line in the block. The source filters empty texts out before joining.
\<close>

theorem spec_message_text_counterexample:
  "compile_loop [text_message ''user'' [''a'', [], ''b'']] [] = [''User::\<newline>a\<newline>b'']
   \<and> spec_blocks [text_message ''user'' [''a'', [], ''b'']] = [''User::\<newline>a\<newline>\<newline>b'']
   \<and> compile_loop [text_message ''user'' [''a'', [], ''b'']] []
       \<noteq> spec_blocks [text_message ''user'' [''a'', [], ''b'']]"
  by (simp add: spec_blocks_def spec_message_text_def eval_prompt)

section \<open>Option normalizer: coercion and its failure\<close>

lemma attempted_in_Cons:
  "attempted_in lib ((name, cv) # rest) opts k =
     (if k = name
      then (case opts name of
              Some (PStr s) \<Rightarrow> if s \<noteq> [] then Some (s, convert lib cv s) else None
            | _ \<Rightarrow> None)
      else attempted_in lib rest opts k)"
  by (simp add: attempted_in_def)

lemma attempted_in_absent:
  assumes "name \<notin> fst ` set rest"
  shows "attempted_in lib rest opts name = None"
proof -
  have "map_of rest name = None" using assms by (simp add: map_of_eq_None_iff)
  then show ?thesis by (simp add: attempted_in_def)
qed

lemma attempted_in_upd:
  assumes "name \<notin> fst ` set rest"
  shows "attempted_in lib rest (opts(name \<mapsto> v)) k = attempted_in lib rest opts k"
proof (cases "k = name")
  case True
  then show ?thesis using assms by (simp add: attempted_in_absent)
next
  case False
  then show ?thesis by (simp add: attempted_in_def split: option.splits)
qed

lemma convert_option_result:
  "convert_option lib name cv opts =
     (case attempted_in lib [(name, cv)] opts name of
        None \<Rightarrow> Inr opts
      | Some (s, Inl err) \<Rightarrow> Inl (KnownError (invalid_option_message name s err))
      | Some (s, Inr v) \<Rightarrow> Inr (opts(name \<mapsto> v)))"
  by (simp add: convert_option_def attempted_in_def split: option.splits pyval.splits sum.splits)

lemma convert_all_Inr:
  assumes "distinct (map fst cs)" and "convert_all lib cs opts = Inr opts'"
  shows "opts' k = (case attempted_in lib cs opts k of Some (s, Inr v) \<Rightarrow> Some v | _ \<Rightarrow> opts k)
         \<and> (\<forall>s err. attempted_in lib cs opts k \<noteq> Some (s, Inl err))"
  using assms
proof (induction cs arbitrary: opts)
  case Nil
  then show ?case by (simp add: attempted_in_def)
next
  case (Cons a rest)
  obtain name cv where a: "a = (name, cv)" by (cases a)
  from Cons.prems have fresh: "name \<notin> fst ` set rest" and dist: "distinct (map fst rest)"
    by (auto simp add: a)
  show ?case
  proof (cases "attempted_in lib [(name, cv)] opts name")
    case None
    then have step: "convert_option lib name cv opts = Inr opts"
      by (simp add: convert_option_result)
    then have "convert_all lib rest opts = Inr opts'"
      using Cons.prems(2) by (simp add: a)
    from Cons.IH [OF dist this] None show ?thesis
      using fresh
      by (auto simp add: a attempted_in_Cons attempted_in_absent split: option.splits pyval.splits if_splits)
  next
    case (Some p)
    obtain s r where p: "p = (s, r)" by (cases p)
    show ?thesis
    proof (cases r)
      case (Inl err)
      then have "convert_option lib name cv opts = Inl (KnownError (invalid_option_message name s err))"
        using Some p by (simp add: convert_option_result)
      then show ?thesis using Cons.prems(2) by (simp add: a)
    next
      case (Inr v)
      then have step: "convert_option lib name cv opts = Inr (opts(name \<mapsto> v))"
        using Some p by (simp add: convert_option_result)
      then have run: "convert_all lib rest (opts(name \<mapsto> v)) = Inr opts'"
        using Cons.prems(2) by (simp add: a)
      have here: "attempted_in lib ((name, cv) # rest) opts name = Some (s, Inr v)"
        using Some p Inr by (simp add: attempted_in_def)
      have there: "k \<noteq> name \<Longrightarrow>
                     attempted_in lib ((name, cv) # rest) opts k = attempted_in lib rest opts k"
        by (simp add: attempted_in_Cons)
      from Cons.IH [OF dist run, unfolded attempted_in_upd [OF fresh]]
      have ih: "opts' k = (case attempted_in lib rest opts k of
                             Some (s, Inr v) \<Rightarrow> Some v | _ \<Rightarrow> (opts(name \<mapsto> v)) k)"
        and ok: "\<forall>s err. attempted_in lib rest opts k \<noteq> Some (s, Inl err)"
        by simp_all
      show ?thesis
      proof (cases "k = name")
        case True
        then show ?thesis using ih here fresh by (simp add: a attempted_in_absent)
      next
        case False
        then show ?thesis
          using ih ok there by (auto simp add: a split: option.splits sum.splits)
      qed
    qed
  qed
qed


lemma distinct_conversions: "distinct (map fst conversions)"
  by (simp add: conversions_def)

lemmas eval_lib =
  sample_lib_def decimal_int_def int_blank_def is_digit_def known_values_def

lemmas eval_parse =
  parse_raw_options_def conversions_def convert_option_def invalid_option_message_def



section \<open>The stream option given as the string 0\<close>

text \<open>
  Claim C10. When the raw option \<^verbatim>\<open>stream\<close> is the string \<^verbatim>\<open>"0"\<close> (which
  \<^verbatim>\<open>int\<close> reads as 0) and normalization succeeds, the normalized value is the boolean
  false, and the request builder, which succeeds whenever a model is given, puts the key
  \<^verbatim>\<open>stream\<close> into the payload with the value false: false is neither the empty string
  nor \<^verbatim>\<open>None\<close>, and \<^verbatim>\<open>stream\<close> is not a count-like key.
\<close>

theorem stream_zero_sent_as_false:
  assumes "raw ''stream'' = Some (PStr ''0'')"
    and "py_int lib ''0'' = Inr 0"
    and "parse_raw_options lib raw = Inr opts"
  shows "opts ''stream'' = Some (PBool False)
         \<and> (\<forall>m. opts ''model'' = Some m \<longrightarrow>
               (\<exists>payload. make_codex_options opts = Inr payload
                          \<and> payload ''stream'' = Some (PBool False)))"
proof -
  have "attempted_in lib conversions raw ''stream'' = Some (''0'', Inr (PBool False))"
    using assms(1,2) by (simp add: attempted_in_def conversions_def)
  then have stream: "opts ''stream'' = Some (PBool False)"
    using convert_all_Inr [OF distinct_conversions, of lib raw opts "''stream''"] assms(3)
    by (simp add: parse_raw_options_def)
  have key: "''stream'' \<in> set option_keys" by (simp add: option_keys_def)
  have inc: "included ''stream'' (PBool False)" by (simp add: included_def count_like_def)
  have "collect_options option_keys opts [''model'' \<mapsto> m] ''stream'' = Some (PBool False)" for m
    using key inc stream by (simp add: collect_options_lookup)
  then show ?thesis using stream by (simp add: make_codex_options_def)
qed

theorem stream_zero_sent_as_false_witness:
  "(\<exists>payload. make_codex_options [''model'' \<mapsto> PStr ''code-davinci-002'', ''stream'' \<mapsto> PBool False]
                = Inr payload \<and> payload ''stream'' = Some (PBool False))"
proof -
  let ?raw = "[''model'' \<mapsto> PStr ''code-davinci-002'', ''stream'' \<mapsto> PStr ''0'']"
  let ?opts = "[''model'' \<mapsto> PStr ''code-davinci-002'', ''stream'' \<mapsto> PBool False]"
  have a: "?raw ''stream'' = Some (PStr ''0'')" by simp
  have b: "py_int sample_lib ''0'' = Inr 0" by (simp add: eval_lib)
  have c: "parse_raw_options sample_lib ?raw = Inr ?opts"
    by (simp add: eval_parse eval_lib)
  have d: "?opts ''model'' = Some (PStr ''code-davinci-002'')" by simp
  from stream_zero_sent_as_false [of ?raw sample_lib ?opts, OF a b c] d
  show ?thesis by blast
qed

section \<open>Decoder: the streaming branch\<close>

lemma data_payloads_Cons:
  "data_payloads (line # rest) =
     (if startswith line ''data: '' \<and> py_strip (drop 6 line) \<noteq> ''[DONE]''
      then py_strip (drop 6 line) # data_payloads rest
      else data_payloads rest)"
  by (simp add: data_payloads_def)

lemma decode_lines_Cons:
  "decode_lines lib (line # rest) =
     (if \<not> startswith line ''data: '' then decode_lines lib rest
      else if py_strip (drop 6 line) = ''[DONE]'' then decode_lines lib rest
      else (case json_loads lib (py_strip (drop 6 line)) of
              Inl e \<Rightarrow> Raise (JSONDecodeError e)
            | Inr v \<Rightarrow> Yield v (decode_lines lib rest)))"
proof -
  have "length ''data: '' = 6" by simp
  then show ?thesis by (simp only: decode_lines.simps Let_def)
qed

lemma decode_lines_yielded:
  "yielded (decode_lines lib lines) =
     map (\<lambda>p. projr (json_loads lib p))
       (takeWhile (\<lambda>p. \<not> isl (json_loads lib p)) (data_payloads lines))"
proof (induction lines)
  case Nil
  show ?case by (simp add: data_payloads_def)
next
  case (Cons line rest)
  show ?case
  proof (cases "startswith line ''data: '' \<and> py_strip (drop 6 line) \<noteq> ''[DONE]''")
    case False
    then show ?thesis
      using Cons.IH by (auto simp add: data_payloads_Cons decode_lines_Cons simp del: decode_lines.simps)
  next
    case True
    then show ?thesis
      using Cons.IH
      by (cases "json_loads lib (py_strip (drop 6 line))")
         (simp_all add: data_payloads_Cons decode_lines_Cons del: decode_lines.simps)
  qed
qed

lemma decode_lines_raised:
  "raised (decode_lines lib lines) =
     (case dropWhile (\<lambda>p. \<not> isl (json_loads lib p)) (data_payloads lines) of
        [] \<Rightarrow> None
      | p # _ \<Rightarrow> Some (JSONDecodeError (projl (json_loads lib p))))"
proof (induction lines)
  case Nil
  show ?case by (simp add: data_payloads_def)
next
  case (Cons line rest)
  show ?case
  proof (cases "startswith line ''data: '' \<and> py_strip (drop 6 line) \<noteq> ''[DONE]''")
    case False
    then show ?thesis
      using Cons.IH by (auto simp add: data_payloads_Cons decode_lines_Cons simp del: decode_lines.simps)
  next
    case True
    then show ?thesis
      using Cons.IH
      by (cases "json_loads lib (py_strip (drop 6 line))")
         (simp_all add: data_payloads_Cons decode_lines_Cons del: decode_lines.simps)
  qed
qed

lemma decode_lines_nothing:
  "\<forall>l \<in> set lines. \<not> startswith l ''data: '' \<or> py_strip (drop 6 l) = ''[DONE]''
     \<Longrightarrow> decode_lines lib lines = Stop"
  by (induction lines) (auto simp add: decode_lines_Cons simp del: decode_lines.simps(2))

lemmas eval_decode =
  decode_response_def get_or_def startswith_def py_strip_def py_isspace_def data_payloads_def

text \<open>
  Claim C1. When the payload's \<^verbatim>\<open>stream\<close> flag is set (a true value), the decoder
  goes through the lines of the body in order. The data payloads are what is left of each
  line that starts with \<^verbatim>\<open>data: \<close> once the prefix and the surrounding whitespace are
  removed, without the payloads equal to \<^verbatim>\<open>[DONE]\<close>. The decoder yields the JSON
  parse of every data payload up to the first one that is not valid JSON; there it ends
  with the decode error, and it ends normally when there is none. Lines without the prefix
  and sentinels yield nothing.
\<close>

theorem decode_response_streaming:
  assumes "truthy (get_or data ''stream'' PNone)"
  shows "yielded (decode_response lib data lines) =
           map (\<lambda>p. projr (json_loads lib p))
             (takeWhile (\<lambda>p. \<not> isl (json_loads lib p)) (data_payloads lines))
         \<and> raised (decode_response lib data lines) =
             (case dropWhile (\<lambda>p. \<not> isl (json_loads lib p)) (data_payloads lines) of
                [] \<Rightarrow> None
              | p # _ \<Rightarrow> Some (JSONDecodeError (projl (json_loads lib p))))
         \<and> ((\<forall>l \<in> set lines. \<not> startswith l ''data: '' \<or> py_strip (drop 6 l) = ''[DONE]'')
              \<longrightarrow> decode_response lib data lines = Stop)"
  using assms
  by (simp add: decode_response_def decode_lines_yielded decode_lines_raised decode_lines_nothing)

theorem decode_response_streaming_witness:
  "yielded (decode_response sample_lib [''stream'' \<mapsto> PBool True]
      [''data: {\"choices\":[{\"text\":\"Hi\"}]}\<newline>'', '': keep-alive\<newline>'', ''\<newline>'',
       ''data: [DONE]\<newline>'']) = [hi_event]
   \<and> raised (decode_response sample_lib [''stream'' \<mapsto> PBool True]
      [''data: {\"choices\":[{\"text\":\"Hi\"}]}\<newline>'', '': keep-alive\<newline>'', ''\<newline>'',
       ''data: [DONE]\<newline>'']) = None
   \<and> yielded (decode_response sample_lib [''stream'' \<mapsto> PInt 1]
      [''data: {\"choices\":[{\"text\":\"Hi\"}]}\<newline>'', ''data: oops\<newline>'',
       ''data: {\"choices\":[{\"text\":\"Hi\"}]}\<newline>'']) = [hi_event]
   \<and> raised (decode_response sample_lib [''stream'' \<mapsto> PInt 1]
      [''data: {\"choices\":[{\"text\":\"Hi\"}]}\<newline>'', ''data: oops\<newline>'',
       ''data: {\"choices\":[{\"text\":\"Hi\"}]}\<newline>''])
       = Some (JSONDecodeError ''Expecting value: line 1 column 1 (char 0)'')"
proof -
  let ?a = "[''data: {\"choices\":[{\"text\":\"Hi\"}]}\<newline>'', '': keep-alive\<newline>'', ''\<newline>'',
       ''data: [DONE]\<newline>'']"
  let ?b = "[''data: {\"choices\":[{\"text\":\"Hi\"}]}\<newline>'', ''data: oops\<newline>'',
       ''data: {\"choices\":[{\"text\":\"Hi\"}]}\<newline>'']"
  have t1: "truthy (get_or [''stream'' \<mapsto> PBool True] ''stream'' PNone)"
    by (simp add: get_or_def)
  have t2: "truthy (get_or [''stream'' \<mapsto> PInt 1] ''stream'' PNone)"
    by (simp add: get_or_def)
  have pa: "data_payloads ?a = [''{\"choices\":[{\"text\":\"Hi\"}]}'']"
    by (simp add: eval_decode)
  have pb: "data_payloads ?b = [''{\"choices\":[{\"text\":\"Hi\"}]}'', ''oops'',
                                ''{\"choices\":[{\"text\":\"Hi\"}]}'']"
    by (simp add: eval_decode)
  have l1: "json_loads sample_lib ''{\"choices\":[{\"text\":\"Hi\"}]}'' = Inr hi_event"
    by (simp add: eval_lib)
  have l2: "json_loads sample_lib ''oops'' = Inl ''Expecting value: line 1 column 1 (char 0)''"
    by (simp add: eval_lib)
  show ?thesis
    using decode_response_streaming [OF t1, of sample_lib ?a]
          decode_response_streaming [OF t2, of sample_lib ?b]
    by (simp add: pa pb l1 l2)
qed

section \<open>Response mapper\<close>

text \<open>
  Claim C6. For a decoded event that is an object whose \<^verbatim>\<open>choices\<close> is absent, null or
  an array that is empty or starts with an object, the mapper takes as text the
  \<^verbatim>\<open>text\<close> field of that first object, and the empty string when there is no first
  object or it has no such field. It returns one chunk of type \<^verbatim>\<open>assistant\<close> carrying
  the text when the text is true in Python's sense, which for a string means non-empty,
  and nothing otherwise.
\<close>

theorem map_chunk_text:
  assumes "map_of d ''choices'' \<in> {None, Some PNone, Some (PList cs)}"
    and "cs = [] \<or> (\<exists>rest. cs = PDict f # rest)"
  shows "map_chunk (PDict d) =
           Inr (let text = (if map_of d ''choices'' = Some (PList cs) \<and> cs \<noteq> []
                            then (case map_of f ''text'' of None \<Rightarrow> PStr [] | Some t \<Rightarrow> t)
                            else PStr [])
                in if truthy text
                   then Some \<lparr>chunk_type = ''assistant'', chunk_content = text\<rparr>
                   else None)"
  using assms by (auto simp add: map_chunk_def Let_def)

theorem map_chunk_text_witness:
  "map_chunk hello_event = Inr (Some \<lparr>chunk_type = ''assistant'', chunk_content = PStr ''Hello there''\<rparr>)
   \<and> map_chunk empty_event = Inr None
   \<and> map_chunk (PDict [(''choices'', PList [])]) = Inr None
   \<and> map_chunk (PDict [(''id'', PStr ''cmpl-1'')]) = Inr None
   \<and> map_chunk (PDict [(''choices'', PList [PDict [(''index'', PInt 0)]])]) = Inr None"
proof -
  have 1: "map_chunk hello_event = Inr (Some \<lparr>chunk_type = ''assistant'', chunk_content = PStr ''Hello there''\<rparr>)"
    using map_chunk_text [of "[(''choices'', PList [PDict [(''text'', PStr ''Hello there'')]])]"
                             "[PDict [(''text'', PStr ''Hello there'')]]" "[(''text'', PStr ''Hello there'')]"]
    by (simp add: hello_event_def)
  have 2: "map_chunk empty_event = Inr None"
    using map_chunk_text [of "[(''choices'', PList [PDict [(''text'', PStr [])]])]"
                             "[PDict [(''text'', PStr [])]]" "[(''text'', PStr [])]"]
    by (simp add: empty_event_def)
  have 3: "map_chunk (PDict [(''choices'', PList [])]) = Inr None"
    using map_chunk_text [of "[(''choices'', PList [])]" "[]" "[]"] by simp
  have 4: "map_chunk (PDict [(''id'', PStr ''cmpl-1'')]) = Inr None"
    using map_chunk_text [of "[(''id'', PStr ''cmpl-1'')]" "[]" "[]"] by simp
  have 5: "map_chunk (PDict [(''choices'', PList [PDict [(''index'', PInt 0)]])]) = Inr None"
    using map_chunk_text [of "[(''choices'', PList [PDict [(''index'', PInt 0)]])]"
                             "[PDict [(''index'', PInt 0)]]" "[(''index'', PInt 0)]"]
    by simp
  show ?thesis using 1 2 3 4 5 by blast
qed

section \<open>Transport: authentication headers\<close>

lemma py_split_nonempty: "py_split c s \<noteq> []"
  by (cases s) (auto split: list.splits)

lemma load_api_key_segments:
  assumes "utils_load_api_key h ''OPENAI_API_KEY''
             (get_or (prov_options self) ''token_file_path'' (PStr []))
             (get_or (prov_options self) ''token_load_fn'' (PStr [])) = Inr raw"
    and "segs = py_split (CHR '','') (py_strip raw)"
  shows "load_api_key h self =
           Inr (py_strip (segs ! 0), if 1 < length segs then Some (py_strip (segs ! 1)) else None)"
proof (cases segs)
  case Nil
  then show ?thesis using assms(2) py_split_nonempty by metis
next
  case (Cons e0 rest)
  then show ?thesis
    using assms by (cases rest) (simp_all add: load_api_key_def)
qed

lemmas eval_split = py_strip_def py_isspace_def

text \<open>
  Claim C7, as amended. Every request carries the content type and the user agent. The
  authentication header depends on the mode alone. In mode \<^verbatim>\<open>bearer\<close> the retrieved
  credential is trimmed and split on commas; the first segment, trimmed, is sent as
  \<^verbatim>\<open>Authorization: Bearer <key>\<close>, and the second segment is sent, trimmed, as the
  organization header when it is present and not blank; a second segment that is empty or
  blank sends no organization header. In mode \<^verbatim>\<open>api-key\<close> only the first segment,
  trimmed, is sent, under the name \<^verbatim>\<open>api-key\<close>. In any other mode no authentication
  header is sent and the credential is not even retrieved.
\<close>

theorem request_headers_by_auth_type:
  assumes "opts ''auth_type'' = Some auth"
    and "segs = py_split (CHR '','') (py_strip raw)"
  shows "(auth \<noteq> PStr ''bearer'' \<and> auth \<noteq> PStr ''api-key''
            \<longrightarrow> request_headers h self opts = Inr base_headers)
         \<and> (utils_load_api_key h ''OPENAI_API_KEY''
               (get_or (prov_options self) ''token_file_path'' (PStr []))
               (get_or (prov_options self) ''token_load_fn'' (PStr [])) = Inr raw
            \<longrightarrow> (auth = PStr ''bearer'' \<longrightarrow>
                   request_headers h self opts =
                     Inr (if 1 < length segs \<and> py_strip (segs ! 1) \<noteq> []
                          then base_headers(''Authorization'' \<mapsto> ''Bearer '' @ py_strip (segs ! 0),
                                            ''OpenAI-Organization'' \<mapsto> py_strip (segs ! 1))
                          else base_headers(''Authorization'' \<mapsto> ''Bearer '' @ py_strip (segs ! 0))))
              \<and> (auth = PStr ''api-key'' \<longrightarrow>
                   request_headers h self opts =
                     Inr (base_headers(''api-key'' \<mapsto> py_strip (segs ! 0)))))"
proof -
  have other: "auth \<noteq> PStr ''bearer'' \<and> auth \<noteq> PStr ''api-key''
                 \<longrightarrow> request_headers h self opts = Inr base_headers"
    using assms(1) by (simp add: request_headers_def getitem_def base_headers_def)
  have cred: "request_headers h self opts =
                (if auth = PStr ''bearer''
                 then Inr (if 1 < length segs \<and> py_strip (segs ! 1) \<noteq> []
                           then base_headers(''Authorization'' \<mapsto> ''Bearer '' @ py_strip (segs ! 0),
                                             ''OpenAI-Organization'' \<mapsto> py_strip (segs ! 1))
                           else base_headers(''Authorization'' \<mapsto> ''Bearer '' @ py_strip (segs ! 0)))
                 else if auth = PStr ''api-key''
                 then Inr (base_headers(''api-key'' \<mapsto> py_strip (segs ! 0)))
                 else Inr base_headers)"
    if "utils_load_api_key h ''OPENAI_API_KEY''
               (get_or (prov_options self) ''token_file_path'' (PStr []))
               (get_or (prov_options self) ''token_load_fn'' (PStr [])) = Inr raw"
    using assms(1) load_api_key_segments [OF that assms(2)]
    by (simp add: request_headers_def getitem_def base_headers_def)
  show ?thesis using other cred by simp
qed

theorem request_headers_by_auth_type_witness:
  "request_headers (sample_host '' sk-1 , org-9 ,x '' []) \<lparr>command_type = ''complete'', prov_options = sample_options\<rparr>
       [''auth_type'' \<mapsto> PStr ''bearer'']
     = Inr (base_headers(''Authorization'' \<mapsto> ''Bearer sk-1'', ''OpenAI-Organization'' \<mapsto> ''org-9''))
   \<and> request_headers (sample_host '' sk-1 , org-9 ,x '' []) \<lparr>command_type = ''complete'', prov_options = sample_options\<rparr>
       [''auth_type'' \<mapsto> PStr ''api-key'']
     = Inr (base_headers(''api-key'' \<mapsto> ''sk-1''))
   \<and> request_headers (sample_host '' sk-1 , org-9 ,x '' []) \<lparr>command_type = ''complete'', prov_options = sample_options\<rparr>
       [''auth_type'' \<mapsto> PStr ''none'']
     = Inr base_headers"
proof -
  let ?h = "sample_host '' sk-1 , org-9 ,x '' []"
  let ?self = "\<lparr>command_type = ''complete'', prov_options = sample_options\<rparr>"
  have segs: "[''sk-1 '', '' org-9 '', ''x''] = py_split (CHR '','') (py_strip '' sk-1 , org-9 ,x '')"
    by (simp add: eval_split)
  have cred: "utils_load_api_key ?h ''OPENAI_API_KEY''
               (get_or (prov_options ?self) ''token_file_path'' (PStr []))
               (get_or (prov_options ?self) ''token_load_fn'' (PStr [])) = Inr '' sk-1 , org-9 ,x ''"
    by (simp add: sample_host_def)
  have 1: "request_headers ?h ?self [''auth_type'' \<mapsto> PStr ''bearer'']
     = Inr (base_headers(''Authorization'' \<mapsto> ''Bearer sk-1'', ''OpenAI-Organization'' \<mapsto> ''org-9''))"
    using request_headers_by_auth_type
            [of "[''auth_type'' \<mapsto> PStr ''bearer'']" "PStr ''bearer''" _ _ ?h ?self, OF _ segs] cred
    by (simp add: eval_split)
  have 2: "request_headers ?h ?self [''auth_type'' \<mapsto> PStr ''api-key'']
     = Inr (base_headers(''api-key'' \<mapsto> ''sk-1''))"
    using request_headers_by_auth_type
            [of "[''auth_type'' \<mapsto> PStr ''api-key'']" "PStr ''api-key''" _ _ ?h ?self, OF _ segs] cred
    by (simp add: eval_split)
  have 3: "request_headers ?h ?self [''auth_type'' \<mapsto> PStr ''none''] = Inr base_headers"
    using request_headers_by_auth_type
            [of "[''auth_type'' \<mapsto> PStr ''none'']" "PStr ''none''" _ _ ?h ?self, OF _ segs]
    by simp
  show ?thesis using 1 2 3 by blast
qed

text \<open>
  The claim as worded sends the second segment whenever there is one. For the credential
  \<^verbatim>\<open>sk-1,\<close> the split yields a second, empty segment, and the source, which guards
  the header with \<^verbatim>\<open>if org_id\<close>, sends no organization header.
\<close>

theorem organization_header_counterexample:
  "py_split (CHR '','') (py_strip ''sk-1,'') = [''sk-1'', []]
   \<and> request_headers (sample_host ''sk-1,'' []) \<lparr>command_type = ''complete'', prov_options = sample_options\<rparr>
       [''auth_type'' \<mapsto> PStr ''bearer'']
     = Inr (base_headers(''Authorization'' \<mapsto> ''Bearer sk-1''))
   \<and> request_headers (sample_host ''sk-1,'' []) \<lparr>command_type = ''complete'', prov_options = sample_options\<rparr>
       [''auth_type'' \<mapsto> PStr ''bearer'']
     \<noteq> Inr (base_headers(''Authorization'' \<mapsto> ''Bearer sk-1'', ''OpenAI-Organization'' \<mapsto> []))"
proof -
  have a: "py_split (CHR '','') (py_strip ''sk-1,'') = [''sk-1'', []]"
    by (simp add: eval_split)
  have b: "request_headers (sample_host ''sk-1,'' []) \<lparr>command_type = ''complete'', prov_options = sample_options\<rparr>
       [''auth_type'' \<mapsto> PStr ''bearer'']
     = Inr (base_headers(''Authorization'' \<mapsto> ''Bearer sk-1''))"
    by (simp add: request_headers_def getitem_def load_api_key_def sample_host_def base_headers_def
        eval_split)
  have "(base_headers(''Authorization'' \<mapsto> ''Bearer sk-1'')) ''OpenAI-Organization'' = None"
    by (simp add: base_headers_def)
  moreover have "(base_headers(''Authorization'' \<mapsto> ''Bearer sk-1'', ''OpenAI-Organization'' \<mapsto> []))
                   ''OpenAI-Organization'' = Some []"
    by simp
  ultimately have c: "base_headers(''Authorization'' \<mapsto> ''Bearer sk-1'')
                    \<noteq> base_headers(''Authorization'' \<mapsto> ''Bearer sk-1'', ''OpenAI-Organization'' \<mapsto> [])"
    by (metis option.distinct(1))
  show ?thesis using a b c by simp
qed

section \<open>Unsupported operations\<close>

text \<open>
  Claim C8, as amended. Constructing the provider with a command type other than
  \<^verbatim>\<open>complete\<close> and \<^verbatim>\<open>edit\<close> always fails, and the world of HTTP calls is left as it
  was: no default options are read, the given options are normalized first, and the error
  is the normalizer's when normalization fails and the unsupported-command error in every
  other case. An image request always fails with the unsupported-image error, whatever
  the prompt, again with no HTTP call.
\<close>

theorem unsupported_operations_rejected:
  "(ct \<notin> {''complete'', ''edit''} \<longrightarrow>
      init lib h ct raw w =
        (case parse_raw_options lib raw of
           Inl e \<Rightarrow> (Inl e, w)
         | Inr opts \<Rightarrow> (Inl (KnownError unsupported_command_message), w)))
   \<and> request_image self prompt w = (Inl (KnownError unsupported_image_message), w)"
  by (simp add: init_def default_options_varname_def ensure_supported_command_def
      request_image_def split: sum.splits)

theorem unsupported_operations_rejected_witness:
  "init sample_lib (sample_host [] []) ''chat'' Map.empty []
     = (Inl (KnownError ''OpenAI Codex provider supports only :AI and :AIEdit commands''), [])
   \<and> request_image \<lparr>command_type = ''complete'', prov_options = sample_options\<rparr> ''a cat'' []
     = (Inl (KnownError ''OpenAI Codex provider does not support image generation''), [])"
  using unsupported_operations_rejected
          [of "''chat''" sample_lib "sample_host [] []" Map.empty "[]"
              "\<lparr>command_type = ''complete'', prov_options = sample_options\<rparr>" "''a cat''"]
  by (simp add: eval_parse unsupported_command_message_def unsupported_image_message_def)

text \<open>
  The claim as worded has the constructor raise the capability error for every unsupported
  command type. The constructor checks the command type last: with the command type
  \<^verbatim>\<open>chat\<close> and the option \<^verbatim>\<open>max_tokens\<close> set to \<^verbatim>\<open>abc\<close> it raises the
  normalizer's error about the option instead.
\<close>

theorem capability_error_counterexample:
  "init sample_lib (sample_host [] []) ''chat'' [''max_tokens'' \<mapsto> PStr ''abc''] []
     = (Inl (KnownError (''Invalid value for option 'max_tokens': abc. Error: ''
                          @ ''invalid literal for int() with base 10: 'abc'' @ [CHR 0x27])), [])
   \<and> fst (init sample_lib (sample_host [] []) ''chat'' [''max_tokens'' \<mapsto> PStr ''abc''] [])
       \<noteq> Inl (KnownError unsupported_command_message)"
  by (simp add: init_def default_options_varname_def eval_parse eval_lib
      unsupported_command_message_def)

section \<open>The non-streaming request\<close>






end
